theory Spec2Isabelle
  imports Main
begin

section \<open>JavaScript values and the library functions the kernel calls\<close>

text \<open>
  The kernel (index.js) handles JSON-shaped JavaScript values: message headers and
  contents come out of \<open>JSON.parse\<close>, replies are object literals. Objects are association
  lists in key order; integers stand for the numbers the kernel itself produces (the
  execution counter).
\<close>

datatype jsval =
    Undefined
  | Null
  | Bool bool
  | Num int
  | Str string
  | Arr "jsval list"
  | Obj "(string \<times> jsval) list"

text \<open>What escapes a function as an exception: the thrown JavaScript value.\<close>

datatype exn =
    SyntaxError
  | TypeError
  | Thrown jsval

text \<open>
  Property read \<open>v.k\<close>, for the keys the kernel reads (\<open>msg_type\<close>, \<open>username\<close>,
  \<open>session\<close>, \<open>code\<close>, \<open>name\<close>, \<open>message\<close>, \<open>stack\<close>): a TypeError on \<open>null\<close> and
  \<open>undefined\<close>, the field of an object, and \<open>undefined\<close> on every other value.
\<close>

fun get_prop :: "jsval \<Rightarrow> string \<Rightarrow> exn + jsval" where
  "get_prop Undefined k = Inl TypeError"
| "get_prop Null k = Inl TypeError"
| "get_prop (Obj fs) k = Inr (case map_of fs k of None \<Rightarrow> Undefined | Some v \<Rightarrow> v)"
| "get_prop v k = Inr Undefined"

text \<open>
  The functions of Node.js and of the npm packages that index.js calls are parameters
  of the model: \<open>JSON.stringify\<close>, \<open>JSON.parse\<close> (\<open>None\<close> when it throws its SyntaxError),
  \<open>crypto.createHmac('sha256', key).update(text).digest('hex')\<close>, the tokens drawn by
  \<open>uuid()\<close> from \<open>Math.random\<close> (the n-th draw), \<open>util.format\<close>, \<open>new Error\<close>, and the
  error object that the runtime creates when it raises a SyntaxError or a TypeError itself.
\<close>

record lib =
  json_stringify :: "jsval \<Rightarrow> string"
  json_parse :: "string \<Rightarrow> jsval option"
  hmac_sha256_hex :: "string \<Rightarrow> string \<Rightarrow> string"
  uuid :: "nat \<Rightarrow> string"
  util_format :: "jsval list \<Rightarrow> string"
  new_error :: "string \<Rightarrow> jsval"
  native_error :: "exn \<Rightarrow> jsval"

section \<open>Array helpers with JavaScript's out-of-range behaviour\<close>

text \<open>\<open>xs.indexOf(x)\<close>: the first index of \<open>x\<close>, or \<open>-1\<close>.\<close>

fun indexOf :: "'a list \<Rightarrow> 'a \<Rightarrow> int" where
  "indexOf [] x = -1"
| "indexOf (y # ys) x =
     (if y = x then 0 else (let r = indexOf ys x in if r < 0 then -1 else r + 1))"

text \<open>A relative index of \<open>slice\<close>: negative counts from the end, then clamped.\<close>

definition rel_index :: "nat \<Rightarrow> int \<Rightarrow> nat" where
  "rel_index len k = (if k < 0 then nat (max (int len + k) 0) else min (nat k) len)"

text \<open>\<open>xs.slice(from, to)\<close> and \<open>xs.slice(from)\<close>.\<close>

definition slice :: "'a list \<Rightarrow> int \<Rightarrow> int \<Rightarrow> 'a list" where
  "slice xs from to =
     (let a = rel_index (length xs) from; b = rel_index (length xs) to
      in take (b - a) (drop a xs))"

definition slice_from :: "'a list \<Rightarrow> int \<Rightarrow> 'a list" where
  "slice_from xs from = drop (rel_index (length xs) from) xs"

text \<open>\<open>xs[i]\<close> in a destructuring pattern: \<open>undefined\<close> beyond the end.\<close>

definition at :: "'a list \<Rightarrow> nat \<Rightarrow> 'a option" where
  "at xs i = (if i < length xs then Some (xs ! i) else None)"

section \<open>The message codec: parse and send\<close>

definition DELIM :: string where
  "DELIM = ''<IDS|MSG>''"

record message =
  header :: jsval
  content :: jsval
  uuids :: "string list"

text \<open>
  \<open>JSON.parse(x)\<close> on a destructured frame: a missing frame is \<open>undefined\<close>, which
  \<open>JSON.parse\<close> converts to the text \<open>undefined\<close> before parsing.
\<close>

definition frame_text :: "string option \<Rightarrow> string" where
  "frame_text f = (case f of None \<Rightarrow> ''undefined'' | Some s \<Rightarrow> s)"

definition JSON_parse :: "lib \<Rightarrow> string option \<Rightarrow> exn + jsval" where
  "JSON_parse L f = (case json_parse L (frame_text f) of None \<Rightarrow> Inl SyntaxError | Some v \<Rightarrow> Inr v)"

text \<open>
  \<open>parse(...args)\<close>, lines 59-71. The frames are taken as their texts. Only the first and
  the fourth frame after the signature are read; the signature frame, the parent header
  and the metadata are skipped, and no key takes part.
\<close>

definition parse :: "lib \<Rightarrow> string list \<Rightarrow> exn + message" where
  "parse L args =
     (let strs = args;
          i = indexOf strs DELIM;
          ids = slice args 0 i;
          rest = slice_from strs (i + 2)
      in case JSON_parse L (at rest 0) of
           Inl e \<Rightarrow> Inl e
         | Inr h \<Rightarrow>
             (case JSON_parse L (at rest 3) of
                Inl e \<Rightarrow> Inl e
              | Inr c \<Rightarrow> Inr \<lparr>header = h, content = c, uuids = ids\<rparr>))"

text \<open>The header object literal of \<open>send\<close>, lines 96-102.\<close>

definition reply_header :: "string \<Rightarrow> jsval \<Rightarrow> string \<Rightarrow> jsval \<Rightarrow> jsval" where
  "reply_header replyId username type session =
     Obj [(''msg_id'', Str replyId), (''username'', username), (''msg_type'', Str type),
          (''session'', session), (''version'', Str ''5.1'')]"

text \<open>
  \<open>send(socket, ids, type, content, parent, metadata = {})\<close>, lines 93-111, up to the
  call of \<open>socket.send\<close>: the frames handed to the socket. \<open>key\<close> is \<open>config.key\<close>,
  \<open>replyId\<close> the token drawn by \<open>uuid()\<close>.
\<close>

definition toHash :: "lib \<Rightarrow> jsval \<Rightarrow> jsval \<Rightarrow> jsval \<Rightarrow> jsval \<Rightarrow> string list" where
  "toHash L hdr parent metadata cont =
     [json_stringify L hdr, json_stringify L parent,
      json_stringify L metadata, json_stringify L cont]"

definition send_frames ::
  "lib \<Rightarrow> string \<Rightarrow> string \<Rightarrow> string list \<Rightarrow> string \<Rightarrow> jsval \<Rightarrow> jsval \<Rightarrow> jsval
   \<Rightarrow> exn + string list" where
  "send_frames L key replyId ids type cont parent metadata =
     (let md = (if metadata = Undefined then Obj [] else metadata)
      in case get_prop parent ''username'' of
           Inl e \<Rightarrow> Inl e
         | Inr u \<Rightarrow>
             (case get_prop parent ''session'' of
                Inl e \<Rightarrow> Inl e
              | Inr s \<Rightarrow>
                  (let th = toHash L (reply_header replyId u type s) parent md cont
                   in Inr (ids @ [DELIM, hmac_sha256_hex L key (concat th)] @ th))))"

section \<open>The code transformer: rewriteCode\<close>

text \<open>
  The syntax tree that \<open>recast.parse\<close> returns, for the node types of the ESTree format
  that the transformer distinguishes and the statements and expressions that can hold them.
  A program is the list \<open>ast.program.body\<close>.
\<close>

datatype kind = Var | Let | Const

datatype expr =
    Identifier string
  | Literal jsval
  | BinaryExpression string expr expr
  | AssignmentExpression string expr expr
  | CallExpression expr "expr list"
  | NewExpression expr "expr list"
  | MemberExpression expr string
  | FunctionExpression "string option" "string list" "stmt list"
  | ClassExpression "string option" "expr option" "member list"
and stmt =
    ExpressionStatement expr
  | VariableDeclaration kind "declarator list"
  | FunctionDeclaration string "string list" "stmt list"
  | ClassDeclaration string "expr option" "member list"
  | BlockStatement "stmt list"
  | IfStatement expr stmt "stmt option"
  | ForStatement "stmt option" "expr option" "expr option" stmt
  | WhileStatement expr stmt
  | ReturnStatement "expr option"
  | ThrowStatement expr
and member =
    MethodDefinition string bool expr
and declarator =
    VariableDeclarator string "expr option"

type_synonym program = "stmt list"

text \<open>
  \<open>walk.ancestor(ast.program, {VariableDeclaration, ClassDeclaration})\<close>, lines 22-34, on
  the nodes below the program body. The walk visits every node, children first. The
  \<open>VariableDeclaration\<close> visitor sets \<open>node.kind = 'var'\<close> wherever the node is. The
  \<open>ClassDeclaration\<close> visitor takes \<open>ancestors[0]\<close>, which is the root of the walk (the
  program) at every depth, looks the node up in the program's own body and stores the
  replacement at that index: for a class declaration that is not itself an element of the
  program body \<open>indexOf\<close> is \<open>-1\<close>, the store goes to the property \<open>-1\<close> of the array, and
  the tree is as before.
\<close>

fun walk_expr :: "expr \<Rightarrow> expr"
  and walk_stmt :: "stmt \<Rightarrow> stmt"
  and walk_member :: "member \<Rightarrow> member"
  and walk_declarator :: "declarator \<Rightarrow> declarator" where
  "walk_expr (Identifier x) = Identifier x"
| "walk_expr (Literal v) = Literal v"
| "walk_expr (BinaryExpression oper a b) = BinaryExpression oper (walk_expr a) (walk_expr b)"
| "walk_expr (AssignmentExpression oper a b) =
     AssignmentExpression oper (walk_expr a) (walk_expr b)"
| "walk_expr (CallExpression f args) = CallExpression (walk_expr f) (map walk_expr args)"
| "walk_expr (NewExpression f args) = NewExpression (walk_expr f) (map walk_expr args)"
| "walk_expr (MemberExpression a p) = MemberExpression (walk_expr a) p"
| "walk_expr (FunctionExpression n ps body) = FunctionExpression n ps (map walk_stmt body)"
| "walk_expr (ClassExpression n super ms) =
     ClassExpression n (map_option walk_expr super) (map walk_member ms)"
| "walk_stmt (ExpressionStatement e) = ExpressionStatement (walk_expr e)"
| "walk_stmt (VariableDeclaration k ds) = VariableDeclaration Var (map walk_declarator ds)"
| "walk_stmt (FunctionDeclaration n ps body) = FunctionDeclaration n ps (map walk_stmt body)"
| "walk_stmt (ClassDeclaration n super ms) =
     ClassDeclaration n (map_option walk_expr super) (map walk_member ms)"
| "walk_stmt (BlockStatement body) = BlockStatement (map walk_stmt body)"
| "walk_stmt (IfStatement c t e) =
     IfStatement (walk_expr c) (walk_stmt t) (map_option walk_stmt e)"
| "walk_stmt (ForStatement i c u body) =
     ForStatement (map_option walk_stmt i) (map_option walk_expr c) (map_option walk_expr u)
       (walk_stmt body)"
| "walk_stmt (WhileStatement c body) = WhileStatement (walk_expr c) (walk_stmt body)"
| "walk_stmt (ReturnStatement e) = ReturnStatement (map_option walk_expr e)"
| "walk_stmt (ThrowStatement e) = ThrowStatement (walk_expr e)"
| "walk_member (MethodDefinition key static f) = MethodDefinition key static (walk_expr f)"
| "walk_declarator (VariableDeclarator x i) = VariableDeclarator x (map_option walk_expr i)"

text \<open>
  The \<open>ClassDeclaration\<close> visitor on an element of the program body, lines 27-32: the
  element is replaced, at its index, by \<open>var id = {...node, type: 'ClassExpression'}\<close>.
\<close>

fun class_visitor :: "stmt \<Rightarrow> stmt" where
  "class_visitor (ClassDeclaration n super ms) =
     VariableDeclaration Var [VariableDeclarator n (Some (ClassExpression (Some n) super ms))]"
| "class_visitor s = s"

definition walk_program :: "program \<Rightarrow> program" where
  "walk_program body = map (\<lambda>s. class_visitor (walk_stmt s)) body"

text \<open>
  \<open>recast.parse\<close> with the acorn parser (the thrown value when the source does not parse),
  \<open>recast.print(ast).code\<close>, \<open>vm.runInContext\<close> and \<open>util.inspect\<close> are parameters.
  The type \<open>'c\<close> stands for the context object apart from its \<open>console\<close> property.
  Running a script yields what the script does with \<open>console\<close> while it runs, in order
  (it calls a method of whatever \<open>console\<close> is bound to, or it assigns \<open>console\<close> another
  value), the completion value or the thrown value, and the context afterwards.
\<close>

datatype console_method = Log | Debug | Info | Warn | Error | Dir | Trace | Assert

datatype action =
    Call console_method "jsval list"
  | Assign jsval

record 'c run =
  actions :: "action list"
  outcome :: "jsval + jsval"
  after :: 'c

record 'c engine =
  recast_parse :: "jsval \<Rightarrow> jsval + program"
  recast_print :: "program \<Rightarrow> string"
  vm_runInContext :: "'c \<Rightarrow> string \<Rightarrow> 'c run"
  util_inspect :: "jsval \<Rightarrow> jsval + string"

text \<open>\<open>rewriteCode(source)\<close>, lines 13-37.\<close>

definition rewriteCode :: "'c engine \<Rightarrow> jsval \<Rightarrow> jsval + string" where
  "rewriteCode E source =
     (case recast_parse E source of
        Inl e \<Rightarrow> Inl e
      | Inr ast \<Rightarrow> Inr (recast_print E (walk_program ast)))"

section \<open>The kernel: sockets, state and the shell handler\<close>

datatype socket = Control | Shell | Stdin | Hb | Iopub

text \<open>
  One call of \<open>socket.send(data)\<close>: the socket, the frames, and the arguments of the
  \<open>send\<close> call that built them.
\<close>

record sent =
  socket :: socket
  routing :: "string list"
  mtype :: string
  mcontent :: jsval
  mparent :: jsval
  data :: "string list"

text \<open>
  What the property \<open>console\<close> of the context is bound to: the object that line 182 builds
  for a request, whose closures hold the header of that request, or any other value
  (\<open>undefined\<close> at startup, line 153, or what a script has assigned).
\<close>

datatype console_binding =
    Hooks jsval
  | Value jsval

text \<open>
  The state the handlers share: \<open>executionCount\<close>, what \<open>context.console\<close> is bound to,
  the rest of the persistent context, the number of \<open>uuid()\<close> draws so far, and everything
  handed to the sockets, oldest first.
\<close>

record 'c kernel =
  executionCount :: int
  console :: console_binding
  ctx :: 'c
  draws :: nat
  wire :: "sent list"

text \<open>
  A statement sequence in which any statement may throw: the exception, if any, and the
  state reached. What was sent before an exception stays sent.
\<close>

definition and_then ::
  "exn option \<times> 'c kernel \<Rightarrow> ('c kernel \<Rightarrow> exn option \<times> 'c kernel) \<Rightarrow> exn option \<times> 'c kernel" where
  "and_then r f = (case r of (None, k) \<Rightarrow> f k | (Some e, k) \<Rightarrow> (Some e, k))"

definition send ::
  "lib \<Rightarrow> string \<Rightarrow> socket \<Rightarrow> string list \<Rightarrow> string \<Rightarrow> jsval \<Rightarrow> jsval \<Rightarrow> 'c kernel
   \<Rightarrow> exn option \<times> 'c kernel" where
  "send L key sock ids type cont parent k =
     (let replyId = uuid L (draws k);
          k1 = k\<lparr>draws := Suc (draws k)\<rparr>
      in case send_frames L key replyId ids type cont parent Undefined of
           Inl e \<Rightarrow> (Some e, k1)
         | Inr d \<Rightarrow>
             (None, k1\<lparr>wire := wire k1 @
                [\<lparr>socket = sock, routing = ids, mtype = type, mcontent = cont,
                  mparent = parent, data = d\<rparr>]\<rparr>))"

text \<open>\<open>iopub(type, content, parent)\<close>, lines 130-132: the identity is drawn first.\<close>

definition iopub ::
  "lib \<Rightarrow> string \<Rightarrow> string \<Rightarrow> jsval \<Rightarrow> jsval \<Rightarrow> 'c kernel \<Rightarrow> exn option \<times> 'c kernel" where
  "iopub L key type cont parent k =
     send L key Iopub [uuid L (draws k)] type cont parent (k\<lparr>draws := Suc (draws k)\<rparr>)"

text \<open>The constant \<open>info\<close>, lines 73-91.\<close>

definition info :: jsval where
  "info = Obj
     [(''protocol_version'', Str ''5.1''),
      (''implementation'', Str ''nodejs''),
      (''implementation_version'', Str ''1.0''),
      (''language'', Str ''JavaScript''),
      (''banner'', Str ''Node.js for Jupyter''),
      (''language_info'', Obj
         [(''name'', Str ''Node.js''),
          (''version'', Str ''0.10''),
          (''mimetype'', Str ''text/javascript''),
          (''file_extension'', Str ''.js''),
          (''pygments_lexer'', Str ''javascript''),
          (''codemirror_mode'', Str ''javascript'')]),
      (''help_links'', Arr
         [Obj [(''text'', Str ''Node.js Documentation''),
               (''url'', Str ''https://nodejs.org/api/'')],
          Obj [(''text'', Str ''JavaScript Documentation (MDN)''),
               (''url'', Str ''https://developer.mozilla.org/en-US/docs/Web/JavaScript'')]])]"

subsection \<open>The console object of lines 173-208\<close>

text \<open>\<open>fmt\<close>, line 136: the formatted arguments and a newline.\<close>

definition fmt :: "lib \<Rightarrow> jsval list \<Rightarrow> string" where
  "fmt L a = util_format L a @ [CHR 0x0A]"

definition log :: "lib \<Rightarrow> string \<Rightarrow> jsval \<Rightarrow> jsval list \<Rightarrow> 'c kernel \<Rightarrow> exn option \<times> 'c kernel" where
  "log L key hdr a =
     iopub L key ''stream'' (Obj [(''name'', Str ''stdout''), (''text'', Str (fmt L a))]) hdr"

definition error :: "lib \<Rightarrow> string \<Rightarrow> jsval \<Rightarrow> jsval list \<Rightarrow> 'c kernel \<Rightarrow> exn option \<times> 'c kernel" where
  "error L key hdr a =
     iopub L key ''stream'' (Obj [(''name'', Str ''stderr''), (''text'', Str (fmt L a))]) hdr"

text \<open>\<open>!condition\<close>, for the values of the model.\<close>

fun falsy :: "jsval \<Rightarrow> bool" where
  "falsy Undefined = True"
| "falsy Null = True"
| "falsy (Bool b) = (\<not> b)"
| "falsy (Num n) = (n = 0)"
| "falsy (Str s) = (s = [])"
| "falsy v = False"

text \<open>
  A call \<open>console.m(...a)\<close> of the object built for the request with header \<open>hdr\<close>
  (the closures \<open>log\<close> and \<open>error\<close> hold \<open>data.header\<close>).
\<close>

fun console_call ::
  "lib \<Rightarrow> string \<Rightarrow> jsval \<Rightarrow> console_method \<times> jsval list \<Rightarrow> 'c kernel \<Rightarrow> exn option \<times> 'c kernel" where
  "console_call L key hdr (Log, a) k = log L key hdr a k"
| "console_call L key hdr (Debug, a) k = log L key hdr a k"
| "console_call L key hdr (Info, a) k = log L key hdr a k"
| "console_call L key hdr (Warn, a) k = error L key hdr a k"
| "console_call L key hdr (Error, a) k = error L key hdr a k"
| "console_call L key hdr (Dir, a) k = log L key hdr a k"
| "console_call L key hdr (Trace, a) k = log L key hdr [new_error L (util_format L a)] k"
| "console_call L key hdr (Assert, []) k = error L key hdr [Str ''Assertion failed;''] k"
| "console_call L key hdr (Assert, c # a) k =
     (if falsy c then error L key hdr (Str ''Assertion failed;'' # a) k else (None, k))"


text \<open>
  What the running script does with \<open>console\<close>. An assignment rebinds the property. A call
  reaches the sockets when \<open>console\<close> is bound to the object of line 182; on any other
  value it stays inside the script, and what becomes of the script is in its outcome.
\<close>

fun run_action :: "lib \<Rightarrow> string \<Rightarrow> action \<Rightarrow> 'c kernel \<Rightarrow> exn option \<times> 'c kernel" where
  "run_action L key (Assign v) k = (None, k\<lparr>console := Value v\<rparr>)"
| "run_action L key (Call m a) k =
     (case console k of
        Hooks hdr \<Rightarrow> console_call L key hdr (m, a) k
      | Value v \<Rightarrow> (None, k))"

fun run_actions :: "lib \<Rightarrow> string \<Rightarrow> action list \<Rightarrow> 'c kernel \<Rightarrow> exn option \<times> 'c kernel" where
  "run_actions L key [] k = (None, k)"
| "run_actions L key (c # cs) k = and_then (run_action L key c k) (run_actions L key cs)"

subsection \<open>The handler of an execute request, lines 164-248\<close>

text \<open>The value bound to \<open>e\<close> in \<open>catch (e)\<close>.\<close>

definition caught :: "lib \<Rightarrow> exn \<Rightarrow> jsval" where
  "caught L e = (case e of Thrown v \<Rightarrow> v | _ \<Rightarrow> native_error L e)"

definition result_content :: "int \<Rightarrow> string \<Rightarrow> jsval" where
  "result_content n result =
     Obj [(''execution_count'', Num n),
          (''data'', Obj [(''text/plain'', Str result)])]"

definition reply_ok :: "int \<Rightarrow> jsval" where
  "reply_ok n =
     Obj [(''status'', Str ''ok''),
          (''execution_count'', Num n),
          (''user_expressions'', Obj []),
          (''payload'', Arr [])]"

definition error_content :: "jsval \<Rightarrow> jsval \<Rightarrow> jsval \<Rightarrow> jsval" where
  "error_content ename evalue stack =
     Obj [(''ename'', ename), (''evalue'', evalue), (''traceback'', Arr [stack])]"

definition reply_error :: "jsval \<Rightarrow> jsval \<Rightarrow> jsval \<Rightarrow> int \<Rightarrow> jsval" where
  "reply_error ename evalue stack n =
     Obj [(''status'', Str ''error''),
          (''ename'', ename), (''evalue'', evalue), (''traceback'', Arr [stack]),
          (''execution_count'', Num n),
          (''user_expressions'', Obj []),
          (''payload'', Arr [])]"

text \<open>
  The \<open>try\<close> block, lines 211-230: transform, run in the context, inspect, then the
  \<open>execute_result\<close> broadcast and the \<open>ok\<close> reply. The script runs against the context,
  \<open>console\<close> included: its console calls reach the sockets while it runs, and it can rebind
  \<open>console\<close>.
\<close>

definition try_block ::
  "lib \<Rightarrow> 'c engine \<Rightarrow> string \<Rightarrow> message \<Rightarrow> 'c kernel \<Rightarrow> exn option \<times> 'c kernel" where
  "try_block L E key d k =
     (case get_prop (content d) ''code'' of
        Inl e \<Rightarrow> (Some e, k)
      | Inr code \<Rightarrow>
          (case rewriteCode E code of
             Inl v \<Rightarrow> (Some (Thrown v), k)
           | Inr src \<Rightarrow>
               (let r = vm_runInContext E (ctx k) src
                in case run_actions L key (actions r) k of
                     (Some e, k1) \<Rightarrow> (Some e, k1\<lparr>ctx := after r\<rparr>)
                   | (None, k1) \<Rightarrow>
                       (let k2 = k1\<lparr>ctx := after r\<rparr>
                        in case outcome r of
                             Inl v \<Rightarrow> (Some (Thrown v), k2)
                           | Inr v \<Rightarrow>
                               (case util_inspect E v of
                                  Inl t \<Rightarrow> (Some (Thrown t), k2)
                                | Inr result \<Rightarrow>
                                    and_then
                                      (iopub L key ''execute_result''
                                         (result_content (executionCount k2) result) (header d) k2)
                                      (\<lambda>k3. send L key Shell (uuids d) ''execute_reply''
                                         (reply_ok (executionCount k3)) (header d) k3))))))"

text \<open>
  The \<open>catch\<close> block, lines 232-245. The object literal of the broadcast reads \<open>e.name\<close>,
  \<open>e.message\<close> and \<open>e.stack\<close> before anything is sent.
\<close>

definition catch_block ::
  "lib \<Rightarrow> string \<Rightarrow> message \<Rightarrow> exn \<Rightarrow> 'c kernel \<Rightarrow> exn option \<times> 'c kernel" where
  "catch_block L key d e k =
     (case get_prop (caught L e) ''name'' of
        Inl x \<Rightarrow> (Some x, k)
      | Inr ename \<Rightarrow>
          (case get_prop (caught L e) ''message'' of
             Inl x \<Rightarrow> (Some x, k)
           | Inr evalue \<Rightarrow>
               (case get_prop (caught L e) ''stack'' of
                  Inl x \<Rightarrow> (Some x, k)
                | Inr stack \<Rightarrow>
                    and_then
                      (iopub L key ''error'' (error_content ename evalue stack) (header d) k)
                      (\<lambda>k1. send L key Shell (uuids d) ''execute_reply''
                         (reply_error ename evalue stack (executionCount k1)) (header d) k1))))"

definition try_catch ::
  "lib \<Rightarrow> 'c engine \<Rightarrow> string \<Rightarrow> message \<Rightarrow> 'c kernel \<Rightarrow> exn option \<times> 'c kernel" where
  "try_catch L E key d k =
     (case try_block L E key d k of
        (None, k1) \<Rightarrow> (None, k1)
      | (Some e, k1) \<Rightarrow> catch_block L key d e k1)"

definition execute_request ::
  "lib \<Rightarrow> 'c engine \<Rightarrow> string \<Rightarrow> message \<Rightarrow> 'c kernel \<Rightarrow> exn option \<times> 'c kernel" where
  "execute_request L E key d k =
     and_then
       (iopub L key ''status'' (Obj [(''execution_state'', Str ''busy'')]) (header d) k)
       (\<lambda>k1.
          (let k2 = k1\<lparr>executionCount := executionCount k1 + 1\<rparr>
           in case get_prop (content d) ''code'' of
                Inl e \<Rightarrow> (Some e, k2)
              | Inr code \<Rightarrow>
                  and_then
                    (iopub L key ''execute_input''
                       (Obj [(''code'', code), (''execution_count'', Num (executionCount k2))])
                       (header d) k2)
                    (\<lambda>k3.
                       and_then
                         (try_catch L E key d (k3\<lparr>console := Hooks (header d)\<rparr>))
                         (iopub L key ''status''
                            (Obj [(''execution_state'', Str ''idle'')]) (header d)))))"

text \<open>
  The listener of the shell socket, lines 158-249. An exception that leaves it is
  uncaught.
\<close>

definition shell_on_message ::
  "lib \<Rightarrow> 'c engine \<Rightarrow> string \<Rightarrow> string list \<Rightarrow> 'c kernel \<Rightarrow> exn option \<times> 'c kernel" where
  "shell_on_message L E key args k =
     (case parse L args of
        Inl e \<Rightarrow> (Some e, k)
      | Inr d \<Rightarrow>
          (case get_prop (header d) ''msg_type'' of
             Inl e \<Rightarrow> (Some e, k)
           | Inr t \<Rightarrow>
               if t = Str ''kernel_info_request''
               then send L key Shell (uuids d) ''kernel_info_reply'' info (header d) k
               else if t = Str ''execute_request''
               then execute_request L E key d k
               else (None, k)))"

text \<open>
  The kernel after startup, line 157 and lines 138-155: the counter is 0 and
  \<open>context.console\<close> is \<open>undefined\<close>.
\<close>

definition startup :: "'c \<Rightarrow> 'c kernel" where
  "startup c =
     \<lparr>executionCount = 0, console = Value Undefined, ctx = c, draws = 0, wire = []\<rparr>"

text \<open>
  Messages arriving one after the other on the shell socket. The program installs no
  handler for uncaught exceptions, so the first exception that leaves the listener ends the
  process: the messages after it are not handled.
\<close>

fun serve ::
  "lib \<Rightarrow> 'c engine \<Rightarrow> string \<Rightarrow> string list list \<Rightarrow> 'c kernel \<Rightarrow> exn option \<times> 'c kernel" where
  "serve L E key [] k = (None, k)"
| "serve L E key (m # ms) k = and_then (shell_on_message L E key m k) (serve L E key ms)"

section \<open>An instance of the library parameters\<close>

text \<open>
  For evaluating the model on concrete messages: JSON texts for the values of the model
  (members whose value is \<open>undefined\<close> are left out, \<open>undefined\<close> in an array is \<open>null\<close>),
  and a reader for JSON texts made of objects, arrays, strings without escapes, integers
  and the three literals. \<open>JSON.stringify(undefined)\<close> is not a text; the empty text that
  \<open>join\<close> makes of it stands for it.
\<close>

function show_nat :: "nat \<Rightarrow> string" where
  "show_nat n =
     (if n < 10 then [''0123456789'' ! n]
      else show_nat (n div 10) @ [''0123456789'' ! (n mod 10)])"
  by pat_completeness auto
termination by (relation "measure id") auto

definition show_int :: "int \<Rightarrow> string" where
  "show_int i = (if i < 0 then CHR ''-'' # show_nat (nat (- i)) else show_nat (nat i))"

fun commas :: "string list \<Rightarrow> string" where
  "commas [] = []"
| "commas [x] = x"
| "commas (x # y # r) = x @ '','' @ commas (y # r)"

definition quote :: "string \<Rightarrow> string" where
  "quote s = [CHR 0x22] @ s @ [CHR 0x22]"

fun json_text :: "jsval \<Rightarrow> string"
  and json_elems :: "jsval list \<Rightarrow> string list"
  and json_members :: "(string \<times> jsval) list \<Rightarrow> string list" where
  "json_text Undefined = []"
| "json_text Null = ''null''"
| "json_text (Bool b) = (if b then ''true'' else ''false'')"
| "json_text (Num n) = show_int n"
| "json_text (Str s) = quote s"
| "json_text (Arr xs) = ''['' @ commas (json_elems xs) @ '']''"
| "json_text (Obj fs) = ''{'' @ commas (json_members fs) @ ''}''"
| "json_elems [] = []"
| "json_elems (x # xs) = (if x = Undefined then ''null'' else json_text x) # json_elems xs"
| "json_members [] = []"
| "json_members ((k, v) # fs) =
     (if v = Undefined then json_members fs else (quote k @ '':'' @ json_text v) # json_members fs)"

definition skip_ws :: "string \<Rightarrow> string" where
  "skip_ws s = dropWhile (\<lambda>c. c = CHR '' '') s"

definition is_digit :: "char \<Rightarrow> bool" where
  "is_digit c = ((48::nat) \<le> of_char c \<and> of_char c \<le> (57::nat))"

definition digits_value :: "string \<Rightarrow> nat" where
  "digits_value ds = foldl (\<lambda>n c. 10 * n + (of_char c - 48)) (0::nat) ds"

definition p_string :: "string \<Rightarrow> (string \<times> string) option" where
  "p_string s =
     (case s of
        [] \<Rightarrow> None
      | c # r \<Rightarrow>
          if c \<noteq> CHR 0x22 then None
          else (let body = takeWhile (\<lambda>x. x \<noteq> CHR 0x22) r;
                    rest = dropWhile (\<lambda>x. x \<noteq> CHR 0x22) r
                in if rest = [] \<or> CHR 0x5C \<in> set body then None
                   else Some (body, tl rest)))"

definition p_number :: "string \<Rightarrow> (jsval \<times> string) option" where
  "p_number s =
     (let neg = (s \<noteq> [] \<and> hd s = CHR ''-'');
          t = (if neg then tl s else s);
          ds = takeWhile is_digit t;
          rest = dropWhile is_digit t
      in if ds = [] \<or> (rest \<noteq> [] \<and> hd rest \<in> set ''.eE'') \<or> (length ds > 1 \<and> hd ds = CHR ''0'')
         then None
         else Some (Num (if neg then - int (digits_value ds) else int (digits_value ds)), rest))"

fun p_value :: "nat \<Rightarrow> string \<Rightarrow> (jsval \<times> string) option"
  and p_elems :: "nat \<Rightarrow> string \<Rightarrow> (jsval list \<times> string) option"
  and p_members :: "nat \<Rightarrow> string \<Rightarrow> ((string \<times> jsval) list \<times> string) option" where
  "p_value 0 s = None"
| "p_value (Suc n) s =
     (let t = skip_ws s
      in if t = [] then None
         else if hd t = CHR ''{'' then
           (if skip_ws (tl t) \<noteq> [] \<and> hd (skip_ws (tl t)) = CHR ''}''
            then Some (Obj [], tl (skip_ws (tl t)))
            else (case p_members n (tl t) of None \<Rightarrow> None | Some (fs, r) \<Rightarrow> Some (Obj fs, r)))
         else if hd t = CHR ''['' then
           (if skip_ws (tl t) \<noteq> [] \<and> hd (skip_ws (tl t)) = CHR '']''
            then Some (Arr [], tl (skip_ws (tl t)))
            else (case p_elems n (tl t) of None \<Rightarrow> None | Some (xs, r) \<Rightarrow> Some (Arr xs, r)))
         else if hd t = CHR 0x22 then
           (case p_string t of None \<Rightarrow> None | Some (b, r) \<Rightarrow> Some (Str b, r))
         else if take 4 t = ''true'' then Some (Bool True, drop 4 t)
         else if take 5 t = ''false'' then Some (Bool False, drop 5 t)
         else if take 4 t = ''null'' then Some (Null, drop 4 t)
         else p_number t)"
| "p_elems 0 s = None"
| "p_elems (Suc n) s =
     (case p_value n s of
        None \<Rightarrow> None
      | Some (v, r) \<Rightarrow>
          (let t = skip_ws r
           in if t = [] then None
              else if hd t = CHR '']'' then Some ([v], tl t)
              else if hd t = CHR '','' then
                (case p_elems n (tl t) of None \<Rightarrow> None | Some (vs, r') \<Rightarrow> Some (v # vs, r'))
              else None))"
| "p_members 0 s = None"
| "p_members (Suc n) s =
     (case p_string (skip_ws s) of
        None \<Rightarrow> None
      | Some (key, r) \<Rightarrow>
          (let t = skip_ws r
           in if t = [] \<or> hd t \<noteq> CHR '':'' then None
              else (case p_value n (tl t) of
                      None \<Rightarrow> None
                    | Some (v, r') \<Rightarrow>
                        (let u = skip_ws r'
                         in if u = [] then None
                            else if hd u = CHR ''}'' then Some ([(key, v)], tl u)
                            else if hd u = CHR '','' then
                              (case p_members n (tl u) of
                                 None \<Rightarrow> None
                               | Some (fs, r'') \<Rightarrow> Some ((key, v) # fs, r''))
                            else None))))"

definition json_read :: "string \<Rightarrow> jsval option" where
  "json_read s =
     (case p_value (Suc (length s)) s of
        None \<Rightarrow> None
      | Some (v, r) \<Rightarrow> if skip_ws r = [] then Some v else None)"

text \<open>
  A keyed checksum in the place of HMAC-SHA256 (which the kernel takes from the crypto
  module), tokens \<open>id0\<close>, \<open>id1\<close>, ... in the place of the random ones, and a \<open>util.format\<close>
  that joins its arguments with spaces.
\<close>

definition keyed_checksum :: "string \<Rightarrow> string \<Rightarrow> string" where
  "keyed_checksum key text' = show_nat (sum_list (map of_char (key @ text')) mod 65536)"

fun format_arg :: "jsval \<Rightarrow> string" where
  "format_arg (Str s) = s"
| "format_arg Undefined = ''undefined''"
| "format_arg v = json_text v"

fun spaces :: "string list \<Rightarrow> string" where
  "spaces [] = []"
| "spaces [x] = x"
| "spaces (x # y # r) = x @ '' '' @ spaces (y # r)"

definition error_object :: "string \<Rightarrow> string \<Rightarrow> jsval" where
  "error_object name msg =
     Obj [(''name'', Str name), (''message'', Str msg),
          (''stack'', Str (name @ '': '' @ msg @ [CHR 0x0A] @ ''    at jupyter.js:1:7''))]"

definition node_lib :: lib where
  "node_lib =
     \<lparr>json_stringify = json_text,
      json_parse = json_read,
      hmac_sha256_hex = keyed_checksum,
      uuid = (\<lambda>n. ''id'' @ show_nat n),
      util_format = (\<lambda>a. spaces (map format_arg a)),
      new_error = error_object ''Error'',
      native_error = (\<lambda>e. case e of
          SyntaxError \<Rightarrow> error_object ''SyntaxError'' ''Unexpected token''
        | TypeError \<Rightarrow> error_object ''TypeError'' ''Cannot read property''
        | Thrown v \<Rightarrow> v)\<rparr>"

text \<open>
  The parser, the printer and the virtual machine on the scripts of the examples below:
  what acorn makes of the source, what recast prints for the rewritten tree, and what
  running the printed text does. Any other source is taken not to parse.
\<close>

definition scripts_parse :: "jsval \<Rightarrow> jsval + program" where
  "scripts_parse v =
     (if v = Str ''1+1'' then
        Inr [ExpressionStatement (BinaryExpression ''+'' (Literal (Num 1)) (Literal (Num 1)))]
      else if v = Str ''throw null'' then
        Inr [ThrowStatement (Literal Null)]
      else if v = Str ''boom()'' then
        Inr [ExpressionStatement (CallExpression (Identifier ''boom'') [])]
      else if v = Str ''let x = 1'' then
        Inr [VariableDeclaration Let [VariableDeclarator ''x'' (Some (Literal (Num 1)))]]
      else if v = Str ''console.log(7)'' then
        Inr [ExpressionStatement
               (CallExpression (MemberExpression (Identifier ''console'') ''log'')
                  [Literal (Num 7)])]
      else if v = Str ''console = null'' then
        Inr [ExpressionStatement
               (AssignmentExpression ''='' (Identifier ''console'') (Literal Null))]
      else Inl (error_object ''SyntaxError'' ''Unexpected token''))"

definition scripts_print :: "program \<Rightarrow> string" where
  "scripts_print p =
     (if p = [ExpressionStatement (BinaryExpression ''+'' (Literal (Num 1)) (Literal (Num 1)))]
      then ''1+1''
      else if p = [ThrowStatement (Literal Null)] then ''throw null''
      else if p = [ExpressionStatement (CallExpression (Identifier ''boom'') [])] then ''boom()''
      else if p = [VariableDeclaration Var [VariableDeclarator ''x'' (Some (Literal (Num 1)))]]
      then ''var x = 1''
      else if p = [ExpressionStatement
                     (CallExpression (MemberExpression (Identifier ''console'') ''log'')
                        [Literal (Num 7)])]
      then ''console.log(7)''
      else if p = [ExpressionStatement
                     (AssignmentExpression ''='' (Identifier ''console'') (Literal Null))]
      then ''console = null''
      else [])"

definition scripts_run :: "unit \<Rightarrow> string \<Rightarrow> unit run" where
  "scripts_run c src =
     (if src = ''1+1'' then \<lparr>actions = [], outcome = Inr (Num 2), after = c\<rparr>
      else if src = ''throw null'' then \<lparr>actions = [], outcome = Inl Null, after = c\<rparr>
      else if src = ''boom()'' then
        \<lparr>actions = [], outcome = Inl (error_object ''ReferenceError'' ''boom is not defined''),
         after = c\<rparr>
      else if src = ''console.log(7)'' then
        \<lparr>actions = [Call Log [Num 7]], outcome = Inr Undefined, after = c\<rparr>
      else if src = ''console = null'' then
        \<lparr>actions = [Assign Null], outcome = Inr Null, after = c\<rparr>
      else \<lparr>actions = [], outcome = Inr Undefined, after = c\<rparr>)"

definition script_engine :: "unit engine" where
  "script_engine =
     \<lparr>recast_parse = scripts_parse,
      recast_print = scripts_print,
      vm_runInContext = scripts_run,
      util_inspect = (\<lambda>v. Inr (format_arg v))\<rparr>"

section \<open>Notions used in the properties\<close>

text \<open>Encoding a message and decoding the frames again.\<close>

definition send_then_parse ::
  "lib \<Rightarrow> string \<Rightarrow> string \<Rightarrow> string list \<Rightarrow> string \<Rightarrow> jsval \<Rightarrow> jsval \<Rightarrow> jsval
   \<Rightarrow> exn + message" where
  "send_then_parse L key replyId ids type cont parent metadata =
     (case send_frames L key replyId ids type cont parent metadata of
        Inl e \<Rightarrow> Inl e
      | Inr fs \<Rightarrow> parse L fs)"

text \<open>What an observer of the sockets sees of a message: socket, type, content, parent.\<close>

definition seen :: "sent \<Rightarrow> socket \<times> string \<times> jsval \<times> jsval" where
  "seen m = (socket m, mtype m, mcontent m, mparent m)"



text \<open>The frames of a request with the given header and content texts.\<close>

definition request :: "string \<Rightarrow> string \<Rightarrow> string list" where
  "request h c = [''client'', DELIM, ''signature'', h, ''{}'', ''{}'', c]"

text \<open>Whether a \<open>let\<close> or \<open>const\<close> declaration occurs anywhere in a node.\<close>

fun block_scoped_expr :: "expr \<Rightarrow> bool"
  and block_scoped :: "stmt \<Rightarrow> bool"
  and block_scoped_member :: "member \<Rightarrow> bool"
  and block_scoped_declarator :: "declarator \<Rightarrow> bool" where
  "block_scoped_expr (Identifier x) = False"
| "block_scoped_expr (Literal v) = False"
| "block_scoped_expr (BinaryExpression oper a b) = (block_scoped_expr a \<or> block_scoped_expr b)"
| "block_scoped_expr (AssignmentExpression oper a b) =
     (block_scoped_expr a \<or> block_scoped_expr b)"
| "block_scoped_expr (CallExpression f args) =
     (block_scoped_expr f \<or> (\<exists>a \<in> set args. block_scoped_expr a))"
| "block_scoped_expr (NewExpression f args) =
     (block_scoped_expr f \<or> (\<exists>a \<in> set args. block_scoped_expr a))"
| "block_scoped_expr (MemberExpression a p) = block_scoped_expr a"
| "block_scoped_expr (FunctionExpression n ps body) = (\<exists>s \<in> set body. block_scoped s)"
| "block_scoped_expr (ClassExpression n super ms) =
     ((\<exists>e \<in> set_option super. block_scoped_expr e) \<or> (\<exists>m \<in> set ms. block_scoped_member m))"
| "block_scoped (ExpressionStatement e) = block_scoped_expr e"
| "block_scoped (VariableDeclaration k ds) =
     (k \<noteq> Var \<or> (\<exists>d \<in> set ds. block_scoped_declarator d))"
| "block_scoped (FunctionDeclaration n ps body) = (\<exists>s \<in> set body. block_scoped s)"
| "block_scoped (ClassDeclaration n super ms) =
     ((\<exists>e \<in> set_option super. block_scoped_expr e) \<or> (\<exists>m \<in> set ms. block_scoped_member m))"
| "block_scoped (BlockStatement body) = (\<exists>s \<in> set body. block_scoped s)"
| "block_scoped (IfStatement c t e) =
     (block_scoped_expr c \<or> block_scoped t \<or> (\<exists>s \<in> set_option e. block_scoped s))"
| "block_scoped (ForStatement i c u body) =
     ((\<exists>s \<in> set_option i. block_scoped s) \<or> (\<exists>e \<in> set_option c. block_scoped_expr e) \<or>
      (\<exists>e \<in> set_option u. block_scoped_expr e) \<or> block_scoped body)"
| "block_scoped (WhileStatement c body) = (block_scoped_expr c \<or> block_scoped body)"
| "block_scoped (ReturnStatement e) = (\<exists>x \<in> set_option e. block_scoped_expr x)"
| "block_scoped (ThrowStatement e) = block_scoped_expr e"
| "block_scoped_member (MethodDefinition key static f) = block_scoped_expr f"
| "block_scoped_declarator (VariableDeclarator x i) = (\<exists>e \<in> set_option i. block_scoped_expr e)"




text \<open>The values on which a property read throws.\<close>

fun nullish :: "jsval \<Rightarrow> bool" where
  "nullish Undefined = True"
| "nullish Null = True"
| "nullish v = False"

text \<open>
  What the expression in the \<open>try\<close> block (lines 211-220) comes to for a source in a
  context: what the script does with \<open>console\<close>, the thrown value or the inspected text,
  and the context afterwards.
\<close>

definition evaluate ::
  "'c engine \<Rightarrow> 'c \<Rightarrow> jsval \<Rightarrow> action list \<times> (jsval + string) \<times> 'c" where
  "evaluate E c code =
     (case rewriteCode E code of
        Inl v \<Rightarrow> ([], Inl v, c)
      | Inr src \<Rightarrow>
          (let r = vm_runInContext E c src
           in (actions r,
               (case outcome r of Inl v \<Rightarrow> Inl v | Inr v \<Rightarrow> util_inspect E v),
               after r)))"

text \<open>
  The messages that report an evaluation for the request \<open>d\<close> under the count \<open>n\<close>: the
  result and the \<open>ok\<close> reply for an inspected text, the error and the \<open>error\<close> reply for
  a thrown value whose \<open>name\<close>, \<open>message\<close> and \<open>stack\<close> can be read.
\<close>

definition reported ::
  "message \<Rightarrow> int \<Rightarrow> jsval + string \<Rightarrow> (socket \<times> string \<times> jsval \<times> jsval) list" where
  "reported d n res =
     (case res of
        Inr result \<Rightarrow>
          [(Iopub, ''execute_result'', result_content n result, header d),
           (Shell, ''execute_reply'', reply_ok n, header d)]
      | Inl v \<Rightarrow>
          (case (get_prop v ''name'', get_prop v ''message'', get_prop v ''stack'') of
             (Inr ename, Inr evalue, Inr stack) \<Rightarrow>
               [(Iopub, ''error'', error_content ename evalue stack, header d),
                (Shell, ''execute_reply'', reply_error ename evalue stack n, header d)]
           | _ \<Rightarrow> []))"

text \<open>Whether the \<open>catch\<close> block can report the evaluation.\<close>

fun reportable :: "jsval + string \<Rightarrow> bool" where
  "reportable (Inr result) = True"
| "reportable (Inl v) = (\<not> nullish v)"

text \<open>What \<open>console\<close> is bound to after the script has done the given things with it.\<close>

fun binding_after :: "console_binding \<Rightarrow> action list \<Rightarrow> console_binding" where
  "binding_after b [] = b"
| "binding_after b (Assign v # cs) = binding_after (Value v) cs"
| "binding_after b (Call m a # cs) = binding_after b cs"











text \<open>The header of the execute requests of the examples, as text and as value.\<close>

definition header_text :: string where
  "header_text =
     ''{\"msg_id\":\"m1\",\"username\":\"u\",\"session\":\"s\",\"msg_type\":\"execute_request\",\"version\":\"5.1\"}''"

definition header_value :: jsval where
  "header_value =
     Obj [(''msg_id'', Str ''m1''), (''username'', Str ''u''), (''session'', Str ''s''),
          (''msg_type'', Str ''execute_request''), (''version'', Str ''5.1'')]"

section \<open>Properties of the message codec\<close>

lemma indexOf_append_notin:
  "x \<notin> set xs \<Longrightarrow> indexOf (xs @ x # ys) x = int (length xs)"
  by (induction xs) (auto simp: Let_def)

text \<open>
  What \<open>parse\<close> reads of a framed message: the first and the fourth payload frame.
\<close>

lemma parse_framed:
  assumes "DELIM \<notin> set ids"
  shows "parse L (ids @ DELIM # sg # payload) =
     (case JSON_parse L (at payload 0) of
        Inl e \<Rightarrow> Inl e
      | Inr h \<Rightarrow>
          (case JSON_parse L (at payload 3) of
             Inl e \<Rightarrow> Inl e
           | Inr c \<Rightarrow> Inr \<lparr>header = h, content = c, uuids = ids\<rparr>))"
proof -
  have i: "indexOf (ids @ DELIM # sg # payload) DELIM = int (length ids)"
    using assms by (rule indexOf_append_notin)
  have a: "slice (ids @ DELIM # sg # payload) 0 (int (length ids)) = ids"
    by (simp add: slice_def rel_index_def)
  have n: "nat (int (length ids) + 2) = length ids + 2"
    by simp
  have b: "slice_from (ids @ DELIM # sg # payload) (int (length ids) + 2) = payload"
    by (simp add: slice_from_def rel_index_def n)
  show ?thesis
    unfolding parse_def Let_def i a b ..
qed

text \<open>
  C1. The spec requires \<open>decode\<close> to recompute the HMAC over the four payload strings and
  to reject a message whose signature frame differs. \<open>parse\<close> does not: a message with any
  signature frame decodes exactly as the message signed with the key does.
\<close>

theorem parse_accepts_any_signature:
  "DELIM \<notin> set ids \<Longrightarrow>
   parse L (ids @ DELIM # sg # payload) =
   parse L (ids @ DELIM # hmac_sha256_hex L key (concat payload) # payload)"
  by (simp add: parse_framed)

theorem parse_accepts_any_signature_witness:
  "DELIM \<notin> set [''client''] \<and>
   parse node_lib
     [''client'', DELIM, ''forged'', ''{\"msg_type\":\"kernel_info_request\"}'', ''{}'', ''{}'', ''{}''] =
   parse node_lib
     [''client'', DELIM,
      keyed_checksum ''secret'' (concat [''{\"msg_type\":\"kernel_info_request\"}'', ''{}'', ''{}'', ''{}'']),
      ''{\"msg_type\":\"kernel_info_request\"}'', ''{}'', ''{}'', ''{}''] \<and>
   parse node_lib
     [''client'', DELIM, ''forged'', ''{\"msg_type\":\"kernel_info_request\"}'', ''{}'', ''{}'', ''{}''] =
   Inr \<lparr>header = Obj [(''msg_type'', Str ''kernel_info_request'')], content = Obj [],
        uuids = [''client'']\<rparr>"
proof -
  have d: "DELIM \<notin> set [''client'']"
    by (simp add: DELIM_def)
  have r: "json_read ''{\"msg_type\":\"kernel_info_request\"}'' =
      Some (Obj [(''msg_type'', Str ''kernel_info_request'')])"
    by (simp add: json_read_def skip_ws_def p_string_def)
  have e: "json_read ''{}'' = Some (Obj [])"
    by (simp add: json_read_def skip_ws_def)
  have p: "parse node_lib
     [''client'', DELIM, ''forged'', ''{\"msg_type\":\"kernel_info_request\"}'', ''{}'', ''{}'', ''{}''] =
   Inr \<lparr>header = Obj [(''msg_type'', Str ''kernel_info_request'')], content = Obj [],
        uuids = [''client'']\<rparr>"
    using parse_framed [OF d, of node_lib "''forged''"
        "[''{\"msg_type\":\"kernel_info_request\"}'', ''{}'', ''{}'', ''{}'']"]
    by (simp add: JSON_parse_def at_def frame_text_def node_lib_def r e)
  show ?thesis
    using d p parse_accepts_any_signature [OF d, of node_lib "''forged''"
        "[''{\"msg_type\":\"kernel_info_request\"}'', ''{}'', ''{}'', ''{}'']" "''secret''"]
    by (simp add: node_lib_def)
qed

text \<open>
  C7. For a parent header that is neither \<open>null\<close> nor \<open>undefined\<close>, \<open>send\<close> builds the
  header from the fresh token, the parent's \<open>username\<close> and \<open>session\<close>, the message type and
  the version \<open>5.1\<close>, serializes header, parent header, metadata (\<open>{}\<close> when none is
  given) and content one by one, signs the concatenation of the four texts in that order
  with the key, and hands the socket the identities, the delimiter, the signature and the
  four texts.
\<close>

theorem send_frames_layout:
  assumes "parent \<noteq> Null" and "parent \<noteq> Undefined"
  shows "\<exists>u s h.
     get_prop parent ''username'' = Inr u \<and>
     get_prop parent ''session'' = Inr s \<and>
     h = Obj [(''msg_id'', Str replyId), (''username'', u), (''msg_type'', Str type),
              (''session'', s), (''version'', Str ''5.1'')] \<and>
     send_frames L key replyId ids type cont parent metadata =
       Inr (ids @
            [DELIM,
             hmac_sha256_hex L key
               (json_stringify L h @ json_stringify L parent @
                json_stringify L (if metadata = Undefined then Obj [] else metadata) @
                json_stringify L cont)] @
            [json_stringify L h, json_stringify L parent,
             json_stringify L (if metadata = Undefined then Obj [] else metadata),
             json_stringify L cont])"
  using assms
  by (cases parent) (simp_all add: send_frames_def toHash_def reply_header_def Let_def)

theorem send_frames_layout_witness:
  "Obj [(''username'', Str ''u''), (''session'', Str ''s'')] \<noteq> Null \<and>
   Obj [(''username'', Str ''u''), (''session'', Str ''s'')] \<noteq> Undefined \<and>
   send_frames node_lib ''k'' ''r1'' [''a''] ''status'' (Obj [(''execution_state'', Str ''busy'')])
     (Obj [(''username'', Str ''u''), (''session'', Str ''s'')]) Undefined =
   Inr [''a'', ''<IDS|MSG>'',
        keyed_checksum ''k''
          (''{\"msg_id\":\"r1\",\"username\":\"u\",\"msg_type\":\"status\",\"session\":\"s\",\"version\":\"5.1\"}'' @
           ''{\"username\":\"u\",\"session\":\"s\"}'' @ ''{}'' @ ''{\"execution_state\":\"busy\"}''),
        ''{\"msg_id\":\"r1\",\"username\":\"u\",\"msg_type\":\"status\",\"session\":\"s\",\"version\":\"5.1\"}'',
        ''{\"username\":\"u\",\"session\":\"s\"}'',
        ''{}'',
        ''{\"execution_state\":\"busy\"}'']"
  using send_frames_layout [of "Obj [(''username'', Str ''u''), (''session'', Str ''s'')]"
      "''r1''" "''status''" node_lib "''k''" "[''a'']" "Obj [(''execution_state'', Str ''busy'')]"
      Undefined]
  by (simp add: node_lib_def DELIM_def quote_def)

text \<open>
  C6, as the code has it. \<open>parse\<close> fails exactly when the first or the fourth frame after
  the signature position is missing or is not JSON, and then with the SyntaxError of
  \<open>JSON.parse\<close>; so it fails when fewer than four frames follow the signature. The
  signature position is the frame after the first delimiter, and frame 0 when there is no
  delimiter. The error is not caught by the shell listener: it leaves the listener, and
  nothing has been sent.
\<close>

theorem parse_failure:
  "(parse L args = Inl e \<longleftrightarrow>
      e = SyntaxError \<and>
      (json_parse L (frame_text (at (slice_from args (indexOf args DELIM + 2)) 0)) = None \<or>
       json_parse L (frame_text (at (slice_from args (indexOf args DELIM + 2)) 3)) = None)) \<and>
   (length (slice_from args (indexOf args DELIM + 2)) < 4 \<and> json_parse L ''undefined'' = None
      \<longrightarrow> parse L args = Inl SyntaxError) \<and>
   (parse L args = Inl e \<longrightarrow> shell_on_message L E key args k = (Some e, k))"
proof (intro conjI impI)
  show "parse L args = Inl e \<longleftrightarrow>
      e = SyntaxError \<and>
      (json_parse L (frame_text (at (slice_from args (indexOf args DELIM + 2)) 0)) = None \<or>
       json_parse L (frame_text (at (slice_from args (indexOf args DELIM + 2)) 3)) = None)"
    by (auto simp: parse_def Let_def JSON_parse_def split: option.splits sum.splits)
next
  assume a: "length (slice_from args (indexOf args DELIM + 2)) < 4 \<and> json_parse L ''undefined'' = None"
  then have "at (slice_from args (indexOf args DELIM + 2)) 3 = None"
    by (simp add: at_def)
  with a show "parse L args = Inl SyntaxError"
    by (simp add: parse_def Let_def JSON_parse_def frame_text_def split: option.splits sum.splits)
next
  assume "parse L args = Inl e"
  then show "shell_on_message L E key args k = (Some e, k)"
    by (simp add: shell_on_message_def)
qed

text \<open>
  C4, as the code has it. When the identities do not contain the delimiter and
  \<open>JSON.parse\<close> gives back the header and the content that \<open>JSON.stringify\<close> was given,
  decoding the frames of \<open>send\<close> yields the identities, the content, and a header with the
  parent's \<open>username\<close> and \<open>session\<close>, the message type and the version. The metadata and
  the parent header are not decoded.
\<close>

theorem parse_send_roundtrip:
  assumes "DELIM \<notin> set ids"
    and "get_prop parent ''username'' = Inr u"
    and "get_prop parent ''session'' = Inr s"
    and "json_parse L (json_stringify L (reply_header replyId u type s)) =
         Some (reply_header replyId u type s)"
    and "json_parse L (json_stringify L cont) = Some cont"
  shows "\<exists>h. send_then_parse L key replyId ids type cont parent metadata =
           Inr \<lparr>header = h, content = cont, uuids = ids\<rparr> \<and>
         get_prop h ''username'' = get_prop parent ''username'' \<and>
         get_prop h ''session'' = get_prop parent ''session'' \<and>
         get_prop h ''msg_type'' = Inr (Str type) \<and>
         get_prop h ''version'' = Inr (Str ''5.1'')"
proof -
  let ?h = "reply_header replyId u type s"
  let ?md = "if metadata = Undefined then Obj [] else metadata"
  have f: "send_frames L key replyId ids type cont parent metadata =
      Inr (ids @ DELIM # hmac_sha256_hex L key (concat (toHash L ?h parent ?md cont)) #
           toHash L ?h parent ?md cont)"
    using assms(2,3) by (simp add: send_frames_def Let_def)
  have p: "parse L (ids @ DELIM # hmac_sha256_hex L key (concat (toHash L ?h parent ?md cont)) #
           toHash L ?h parent ?md cont) = Inr \<lparr>header = ?h, content = cont, uuids = ids\<rparr>"
    using assms(4,5)
    by (simp add: parse_framed [OF assms(1)] toHash_def JSON_parse_def at_def frame_text_def)
  have "send_then_parse L key replyId ids type cont parent metadata =
      Inr \<lparr>header = ?h, content = cont, uuids = ids\<rparr>"
    by (simp add: send_then_parse_def f p)
  moreover have "get_prop ?h ''username'' = get_prop parent ''username''"
    "get_prop ?h ''session'' = get_prop parent ''session''"
    "get_prop ?h ''msg_type'' = Inr (Str type)"
    "get_prop ?h ''version'' = Inr (Str ''5.1'')"
    using assms(2,3) by (simp_all add: reply_header_def)
  ultimately show ?thesis by blast
qed

lemma json_read_empty_object: "json_read ''{}'' = Some (Obj [])"
  by (simp add: json_read_def skip_ws_def)

lemma json_read_undefined: "json_read ''undefined'' = None"
  by (simp add: json_read_def skip_ws_def p_number_def is_digit_def)

theorem parse_failure_witness:
  "length (slice_from [''client'', DELIM, ''signature'', ''{}''] (indexOf [''client'', DELIM, ''signature'', ''{}''] DELIM + 2)) < 4 \<and>
   json_parse node_lib ''undefined'' = None \<and>
   parse node_lib [''client'', DELIM, ''signature'', ''{}''] = Inl SyntaxError \<and>
   shell_on_message node_lib script_engine ''secret'' [''client'', DELIM, ''signature'', ''{}'']
     (startup ()) = (Some SyntaxError, startup ())"
proof -
  have a: "length (slice_from [''client'', DELIM, ''signature'', ''{}'']
      (indexOf [''client'', DELIM, ''signature'', ''{}''] DELIM + 2)) < 4"
    by (simp add: slice_from_def rel_index_def DELIM_def)
  have b: "json_parse node_lib ''undefined'' = None"
    by (simp add: node_lib_def json_read_undefined)
  show ?thesis
    using a b parse_failure [of node_lib "[''client'', DELIM, ''signature'', ''{}'']" SyntaxError
        script_engine "''secret''" "startup ()"]
    by simp
qed

text \<open>
  Frames without a delimiter, and frames whose parent header and metadata are not JSON, are
  both decoded.
\<close>

theorem parse_unframed_counterexample:
  "DELIM \<notin> set [''a'', ''{}'', ''b'', ''c'', ''{}''] \<and>
   parse node_lib [''a'', ''{}'', ''b'', ''c'', ''{}''] =
     Inr \<lparr>header = Obj [], content = Obj [], uuids = [''a'', ''{}'', ''b'', ''c'']\<rparr> \<and>
   json_parse node_lib ''{'' = None \<and>
   parse node_lib [''a'', DELIM, ''signature'', ''{}'', ''{'', ''{'', ''{}''] =
     Inr \<lparr>header = Obj [], content = Obj [], uuids = [''a'']\<rparr>"
  by (simp add: parse_def Let_def DELIM_def slice_def slice_from_def rel_index_def at_def
      JSON_parse_def frame_text_def node_lib_def json_read_empty_object)
    (simp add: json_read_def skip_ws_def p_string_def)

lemma parse_leading_delimiter:
  "parse L (DELIM # fs) = Inr m \<Longrightarrow> uuids m = []"
  by (auto simp: parse_def Let_def slice_def rel_index_def split: sum.splits)

lemma json_read_status_header:
  "json_read ''{\"msg_id\":\"r1\",\"username\":\"u\",\"msg_type\":\"status\",\"session\":\"s\",\"version\":\"5.1\"}'' =
   Some (Obj [(''msg_id'', Str ''r1''), (''username'', Str ''u''), (''msg_type'', Str ''status''),
              (''session'', Str ''s''), (''version'', Str ''5.1'')])"
  by (simp add: json_read_def skip_ws_def p_string_def)

lemma json_read_busy:
  "json_read ''{\"execution_state\":\"busy\"}'' = Some (Obj [(''execution_state'', Str ''busy'')])"
  by (simp add: json_read_def skip_ws_def p_string_def)

theorem parse_send_roundtrip_witness:
  "DELIM \<notin> set [''a''] \<and>
   send_then_parse node_lib ''k'' ''r1'' [''a''] ''status'' (Obj [(''execution_state'', Str ''busy'')])
     (Obj [(''username'', Str ''u''), (''session'', Str ''s'')]) Undefined =
   Inr \<lparr>header = Obj [(''msg_id'', Str ''r1''), (''username'', Str ''u''),
                      (''msg_type'', Str ''status''), (''session'', Str ''s''),
                      (''version'', Str ''5.1'')],
        content = Obj [(''execution_state'', Str ''busy'')],
        uuids = [''a'']\<rparr>"
proof -
  let ?p = "Obj [(''username'', Str ''u''), (''session'', Str ''s'')]"
  let ?c = "Obj [(''execution_state'', Str ''busy'')]"
  have d: "DELIM \<notin> set [''a'']"
    by (simp add: DELIM_def)
  have u: "get_prop ?p ''username'' = Inr (Str ''u'')" and s: "get_prop ?p ''session'' = Inr (Str ''s'')"
    by simp_all
  have h: "json_parse node_lib (json_stringify node_lib (reply_header ''r1'' (Str ''u'') ''status'' (Str ''s''))) =
      Some (reply_header ''r1'' (Str ''u'') ''status'' (Str ''s''))"
    by (simp add: node_lib_def reply_header_def quote_def json_read_status_header)
  have c: "json_parse node_lib (json_stringify node_lib ?c) = Some ?c"
    by (simp add: node_lib_def quote_def json_read_busy)
  obtain hd' where
    r: "send_then_parse node_lib ''k'' ''r1'' [''a''] ''status'' ?c ?p Undefined =
        Inr \<lparr>header = hd', content = ?c, uuids = [''a'']\<rparr>"
    using parse_send_roundtrip [OF d u s h c, of "''k''" Undefined] by blast
  have "send_then_parse node_lib ''k'' ''r1'' [''a''] ''status'' ?c ?p Undefined =
      Inr \<lparr>header = reply_header ''r1'' (Str ''u'') ''status'' (Str ''s''), content = ?c, uuids = [''a'']\<rparr>"
    using h c
    by (simp add: send_then_parse_def send_frames_def Let_def parse_framed [OF d, simplified] toHash_def
        JSON_parse_def at_def frame_text_def)
  with d r show ?thesis
    by (simp add: reply_header_def)
qed

text \<open>
  Two messages that differ in their metadata only decode to the same message, and an
  identity equal to the delimiter is not reproduced.
\<close>

theorem roundtrip_counterexample:
  "send_then_parse node_lib ''k'' ''r1'' [''a''] ''status'' (Obj [(''execution_state'', Str ''busy'')])
     (Obj [(''username'', Str ''u''), (''session'', Str ''s'')]) (Obj [(''tag'', Num 1)]) =
   send_then_parse node_lib ''k'' ''r1'' [''a''] ''status'' (Obj [(''execution_state'', Str ''busy'')])
     (Obj [(''username'', Str ''u''), (''session'', Str ''s'')]) (Obj [(''tag'', Num 2)]) \<and>
   Obj [(''tag'', Num 1)] \<noteq> Obj [(''tag'', Num 2)] \<and>
   send_then_parse node_lib ''k'' ''r1'' [DELIM] ''status'' (Obj [(''execution_state'', Str ''busy'')])
     (Obj [(''username'', Str ''u''), (''session'', Str ''s'')]) (Obj []) \<noteq>
   Inr \<lparr>header = Obj [(''msg_id'', Str ''r1''), (''username'', Str ''u''),
                      (''msg_type'', Str ''status''), (''session'', Str ''s''),
                      (''version'', Str ''5.1'')],
        content = Obj [(''execution_state'', Str ''busy'')],
        uuids = [DELIM]\<rparr>"
proof -
  let ?p = "Obj [(''username'', Str ''u''), (''session'', Str ''s'')]"
  let ?c = "Obj [(''execution_state'', Str ''busy'')]"
  have d: "DELIM \<notin> set [''a'']"
    by (simp add: DELIM_def)
  have h: "json_parse node_lib (json_stringify node_lib (reply_header ''r1'' (Str ''u'') ''status'' (Str ''s''))) =
      Some (reply_header ''r1'' (Str ''u'') ''status'' (Str ''s''))"
    by (simp add: node_lib_def reply_header_def quote_def json_read_status_header)
  have c: "json_parse node_lib (json_stringify node_lib ?c) = Some ?c"
    by (simp add: node_lib_def quote_def json_read_busy)
  have "send_then_parse node_lib ''k'' ''r1'' [''a''] ''status'' ?c ?p md =
      Inr \<lparr>header = reply_header ''r1'' (Str ''u'') ''status'' (Str ''s''), content = ?c, uuids = [''a'']\<rparr>" for md
    using h c
    by (simp add: send_then_parse_def send_frames_def Let_def parse_framed [OF d, simplified]
        toHash_def JSON_parse_def at_def frame_text_def)
  then have a: "send_then_parse node_lib ''k'' ''r1'' [''a''] ''status'' ?c ?p (Obj [(''tag'', Num 1)]) =
      send_then_parse node_lib ''k'' ''r1'' [''a''] ''status'' ?c ?p (Obj [(''tag'', Num 2)])"
    by simp
  have b: "send_then_parse node_lib ''k'' ''r1'' [DELIM] ''status'' ?c ?p (Obj []) = Inr m \<Longrightarrow>
      uuids m = []" for m
    by (auto simp: send_then_parse_def send_frames_def Let_def dest: parse_leading_delimiter)
  show ?thesis
    using a b by fastforce
qed

section \<open>Properties of the code transformer\<close>


lemma map_option_same: "(\<And>a. x = Some a \<Longrightarrow> f a = a) \<Longrightarrow> map_option f x = x"
  by (cases x) simp_all

lemma walk_unchanged:
  "\<not> block_scoped_expr e \<Longrightarrow> walk_expr e = e"
  "\<not> block_scoped s \<Longrightarrow> walk_stmt s = s"
  "\<not> block_scoped_member m \<Longrightarrow> walk_member m = m"
  "\<not> block_scoped_declarator d \<Longrightarrow> walk_declarator d = d"
  by (induction e and s and m and d rule: walk_expr_walk_stmt_walk_member_walk_declarator.induct)
    (auto simp: map_idI intro!: map_option_same)














section \<open>Properties of the kernel\<close>

lemma get_prop_defined: "\<not> nullish v \<Longrightarrow> \<exists>x. get_prop v k = Inr x"
  by (cases v) simp_all

lemma get_prop_string: "get_prop v k = Inr (Str s) \<Longrightarrow> \<not> nullish v"
  by (cases v) simp_all

text \<open>With a parent header that is an object, \<open>send\<close> and \<open>iopub\<close> send one message.\<close>

lemma send_seen:
  assumes "\<not> nullish parent"
  shows "\<exists>k'. send L key sock ids type cont parent k = (None, k') \<and>
     map seen (wire k') = map seen (wire k) @ [(sock, type, cont, parent)] \<and>
     executionCount k' = executionCount k \<and> console k' = console k \<and> ctx k' = ctx k"
proof -
  obtain u s where "get_prop parent ''username'' = Inr u" "get_prop parent ''session'' = Inr s"
    using assms get_prop_defined by blast
  then show ?thesis
    by (simp add: send_def send_frames_def Let_def seen_def)
qed

lemma iopub_seen:
  assumes "\<not> nullish parent"
  shows "\<exists>k'. iopub L key type cont parent k = (None, k') \<and>
     map seen (wire k') = map seen (wire k) @ [(Iopub, type, cont, parent)] \<and>
     executionCount k' = executionCount k \<and> console k' = console k \<and> ctx k' = ctx k"
  using send_seen [OF assms, of L key Iopub "[uuid L (draws k)]" type cont "k\<lparr>draws := Suc (draws k)\<rparr>"]
  by (simp add: iopub_def)

lemma console_call_seen:
  assumes "\<not> nullish hdr"
  shows "\<exists>k' ss. console_call L key hdr c k = (None, k') \<and>
     map seen (wire k') = map seen (wire k) @ ss \<and>
     (\<forall>x \<in> set ss. \<exists>t. x = (Iopub, ''stream'', t, hdr)) \<and>
     (fst c \<noteq> Assert \<longrightarrow> length ss = 1) \<and> length ss \<le> 1 \<and>
     executionCount k' = executionCount k \<and> console k' = console k \<and> ctx k' = ctx k"
proof -
  have one: "\<exists>k' ss. iopub L key ''stream'' t hdr k = (None, k') \<and>
     map seen (wire k') = map seen (wire k) @ ss \<and>
     (\<forall>x \<in> set ss. \<exists>t. x = (Iopub, ''stream'', t, hdr)) \<and>
     (fst c \<noteq> Assert \<longrightarrow> length ss = 1) \<and> length ss \<le> 1 \<and>
     executionCount k' = executionCount k \<and> console k' = console k \<and> ctx k' = ctx k" for t
  proof -
    obtain k' where "iopub L key ''stream'' t hdr k = (None, k')"
      "map seen (wire k') = map seen (wire k) @ [(Iopub, ''stream'', t, hdr)]"
      "executionCount k' = executionCount k" "console k' = console k" "ctx k' = ctx k"
      using iopub_seen [OF assms] by blast
    then show ?thesis
      by (intro exI [of _ k'] exI [of _ "[(Iopub, ''stream'', t, hdr)]"]) simp
  qed
  have none: "\<exists>k' ss. (None, k) = (None, k') \<and>
     map seen (wire k') = map seen (wire k) @ ss \<and>
     (\<forall>x \<in> set ss. \<exists>t. x = (Iopub, ''stream'', t, hdr)) \<and>
     (fst c \<noteq> Assert \<longrightarrow> length ss = 1) \<and> length ss \<le> 1 \<and>
     executionCount k' = executionCount k \<and> console k' = console k \<and> ctx k' = ctx k"
    if "fst c = Assert"
    using that by (intro exI [of _ k] exI [of _ "[]"]) simp
  obtain m a where c: "c = (m, a)" by (cases c)
  have "(\<exists>t. console_call L key hdr c k = iopub L key ''stream'' t hdr k) \<or>
      (fst c = Assert \<and> console_call L key hdr c k = (None, k))"
  proof (cases m)
    case Assert
    then show ?thesis
      using c by (cases a) (auto simp: error_def)
  qed (use c in \<open>auto simp: log_def error_def\<close>)
  then show ?thesis
  proof (elim disjE exE conjE)
    fix t assume "console_call L key hdr c k = iopub L key ''stream'' t hdr k"
    then show ?thesis
      using one [of t] by simp
  next
    assume "fst c = Assert" "console_call L key hdr c k = (None, k)"
    then show ?thesis
      using none by simp
  qed
qed

lemma run_actions_value:
  "console k = Value v \<Longrightarrow>
   run_actions L key cs k = (None, k\<lparr>console := binding_after (Value v) cs\<rparr>)"
proof (induction cs arbitrary: k v)
  case Nil
  then show ?case by simp
next
  case (Cons c cs)
  show ?case
  proof (cases c)
    case (Call m a)
    with Cons show ?thesis
      by (simp add: and_then_def)
  next
    case (Assign w)
    have "console (k\<lparr>console := Value w\<rparr>) = Value w" by simp
    from Cons.IH [OF this] Assign show ?thesis
      by (simp add: and_then_def)
  qed
qed

lemma run_actions_seen:
  assumes "\<not> nullish hdr" and "console k = Hooks hdr"
  shows "\<exists>k' ss. run_actions L key cs k = (None, k') \<and>
     map seen (wire k') = map seen (wire k) @ ss \<and>
     (\<forall>x \<in> set ss. \<exists>t. x = (Iopub, ''stream'', t, hdr)) \<and> length ss \<le> length cs \<and>
     executionCount k' = executionCount k \<and> console k' = binding_after (console k) cs \<and>
     ctx k' = ctx k"
  using assms(2)
proof (induction cs arbitrary: k)
  case Nil
  then show ?case by simp
next
  case (Cons c cs)
  show ?case
  proof (cases c)
    case (Assign v)
    let ?k1 = "k\<lparr>console := Value v\<rparr>"
    have "run_actions L key cs ?k1 = (None, ?k1\<lparr>console := binding_after (Value v) cs\<rparr>)"
      by (rule run_actions_value) simp
    with Assign have "run_actions L key (c # cs) k = (None, k\<lparr>console := binding_after (Value v) cs\<rparr>)"
      by (simp add: and_then_def)
    with Assign show ?thesis
      by (intro exI [of _ "k\<lparr>console := binding_after (Value v) cs\<rparr>"] exI [of _ "[]"]) simp
  next
    case (Call m a)
    obtain k1 s1 where 1: "console_call L key hdr (m, a) k = (None, k1)"
      "map seen (wire k1) = map seen (wire k) @ s1"
      "\<forall>x \<in> set s1. \<exists>t. x = (Iopub, ''stream'', t, hdr)" "length s1 \<le> 1"
      "executionCount k1 = executionCount k" "console k1 = console k" "ctx k1 = ctx k"
      using console_call_seen [OF assms(1), of L key "(m, a)" k] by blast
    from 1(6) Cons.prems have "console k1 = Hooks hdr" by simp
    from Cons.IH [OF this] obtain k2 s2 where 2: "run_actions L key cs k1 = (None, k2)"
      "map seen (wire k2) = map seen (wire k1) @ s2"
      "\<forall>x \<in> set s2. \<exists>t. x = (Iopub, ''stream'', t, hdr)" "length s2 \<le> length cs"
      "executionCount k2 = executionCount k1" "console k2 = binding_after (console k1) cs"
      "ctx k2 = ctx k1"
      by blast
    have a: "run_actions L key (c # cs) k = (None, k2)"
      using 1(1) 2(1) Cons.prems Call by (simp add: and_then_def)
    have b: "map seen (wire k2) = map seen (wire k) @ (s1 @ s2)"
      using 1(2) 2(2) by simp
    have c: "\<forall>x \<in> set (s1 @ s2). \<exists>t. x = (Iopub, ''stream'', t, hdr)"
      using 1(3) 2(3) by auto
    have d: "length (s1 @ s2) \<le> length (c # cs)"
      using 1(4) 2(4) by simp
    have e: "executionCount k2 = executionCount k" "console k2 = binding_after (console k) (c # cs)"
      "ctx k2 = ctx k"
      using 1(5-7) 2(5-7) Call by simp_all
    show ?thesis
      by (intro exI [of _ k2] exI [of _ "s1 @ s2"] conjI) (rule a b c d e)+
  qed
qed

lemma try_catch_seen:
  assumes h: "\<not> nullish (header d)"
    and c: "get_prop (content d) ''code'' = Inr code"
    and con: "console k = Hooks (header d)"
    and ev: "evaluate E (ctx k) code = (cs, res, c')"
  shows "\<exists>k' ss. try_catch L E key d k = (if reportable res then None else Some TypeError, k') \<and>
     map seen (wire k') = map seen (wire k) @ ss @ reported d (executionCount k) res \<and>
     (\<forall>x \<in> set ss. \<exists>t. x = (Iopub, ''stream'', t, header d)) \<and> length ss \<le> length cs \<and>
     executionCount k' = executionCount k \<and> console k' = binding_after (console k) cs \<and>
     ctx k' = c'"
proof -
  have thrown: "\<exists>k' . catch_block L key d (Thrown v) k0 =
        (if reportable (Inl v) then None else Some TypeError, k') \<and>
     map seen (wire k') = map seen (wire k0) @ reported d (executionCount k0) (Inl v) \<and>
     executionCount k' = executionCount k0 \<and> console k' = console k0 \<and> ctx k' = ctx k0"
    for v and k0 :: "'a kernel"
  proof (cases "nullish v")
    case True
    then have "get_prop v ''name'' = Inl TypeError"
      by (cases v) simp_all
    with True show ?thesis
      by (simp add: catch_block_def caught_def reported_def)
  next
    case False
    then obtain a b s where p: "get_prop v ''name'' = Inr a" "get_prop v ''message'' = Inr b"
      "get_prop v ''stack'' = Inr s"
      using get_prop_defined by blast
    obtain k1 where 1: "iopub L key ''error'' (error_content a b s) (header d) k0 = (None, k1)"
      "map seen (wire k1) = map seen (wire k0) @ [(Iopub, ''error'', error_content a b s, header d)]"
      "executionCount k1 = executionCount k0" "console k1 = console k0" "ctx k1 = ctx k0"
      using iopub_seen [OF h] by blast
    obtain k2 where 2: "send L key Shell (uuids d) ''execute_reply''
        (reply_error a b s (executionCount k1)) (header d) k1 = (None, k2)"
      "map seen (wire k2) = map seen (wire k1) @
         [(Shell, ''execute_reply'', reply_error a b s (executionCount k1), header d)]"
      "executionCount k2 = executionCount k1" "console k2 = console k1" "ctx k2 = ctx k1"
      using send_seen [OF h] by blast
    have "catch_block L key d (Thrown v) k0 = (None, k2)"
      using p 1(1) 2(1) by (simp add: catch_block_def caught_def and_then_def)
    with False p 1 2 show ?thesis
      by (simp add: reported_def)
  qed
  show ?thesis
  proof (cases "rewriteCode E code")
    case (Inl v)
    with ev have e: "cs = []" "res = Inl v" "c' = ctx k"
      by (simp_all add: evaluate_def)
    have "try_catch L E key d k = catch_block L key d (Thrown v) k"
      using c Inl by (simp add: try_catch_def try_block_def)
    with thrown [of v k] e show ?thesis
      by auto
  next
    case (Inr src)
    define r where "r = vm_runInContext E (ctx k) src"
    from ev Inr have e: "cs = actions r" "c' = after r"
      "res = (case outcome r of Inl v \<Rightarrow> Inl v | Inr v \<Rightarrow> util_inspect E v)"
      by (simp_all add: evaluate_def r_def Let_def)
    obtain k1 ss where 1: "run_actions L key (actions r) k = (None, k1)"
      "map seen (wire k1) = map seen (wire k) @ ss"
      "\<forall>x \<in> set ss. \<exists>t. x = (Iopub, ''stream'', t, header d)"
      "executionCount k1 = executionCount k" "console k1 = binding_after (console k) (actions r)"
      "ctx k1 = ctx k" "length ss \<le> length (actions r)"
      using run_actions_seen [OF h con] by blast
    define k2 where "k2 = k1\<lparr>ctx := after r\<rparr>"
    have k2: "wire k2 = wire k1" "executionCount k2 = executionCount k"
      "console k2 = binding_after (console k) cs" "ctx k2 = c'"
      using 1 e by (simp_all add: k2_def)
    show ?thesis
    proof (cases res)
      case (Inl v)
      have "try_block L E key d k = (Some (Thrown v), k2)"
        using c Inr 1(1) e(3) Inl
        by (auto simp: try_block_def Let_def r_def [symmetric] k2_def split: sum.splits)
      then have "try_catch L E key d k = catch_block L key d (Thrown v) k2"
        by (simp add: try_catch_def)
      with thrown [of v k2] Inl k2 1 e(1) show ?thesis
        by auto
    next
      case (Inr result)
      then obtain v where v: "outcome r = Inr v" "util_inspect E v = Inr result"
        using e(3) by (auto split: sum.splits)
      obtain k3 where 3: "iopub L key ''execute_result''
          (result_content (executionCount k2) result) (header d) k2 = (None, k3)"
        "map seen (wire k3) = map seen (wire k2) @
           [(Iopub, ''execute_result'', result_content (executionCount k2) result, header d)]"
        "executionCount k3 = executionCount k2" "console k3 = console k2" "ctx k3 = ctx k2"
        using iopub_seen [OF h] by blast
      obtain k4 where 4: "send L key Shell (uuids d) ''execute_reply''
          (reply_ok (executionCount k3)) (header d) k3 = (None, k4)"
        "map seen (wire k4) = map seen (wire k3) @
           [(Shell, ''execute_reply'', reply_ok (executionCount k3), header d)]"
        "executionCount k4 = executionCount k3" "console k4 = console k3" "ctx k4 = ctx k3"
        using send_seen [OF h] by blast
      have ec: "executionCount k2 = executionCount k1"
        by (simp add: k2_def)
      have "try_block L E key d k = (None, k4)"
        using c \<open>rewriteCode E code = Inr src\<close> 1(1) v 3(1) 4(1) ec
        by (simp add: try_block_def Let_def r_def [symmetric] k2_def [symmetric] and_then_def)
      then have "try_catch L E key d k = (None, k4)"
        by (simp add: try_catch_def)
      with Inr k2 1 3 4 e(1) show ?thesis
        by (simp add: reported_def)
    qed
  qed
qed

text \<open>
  The messages of one execute request, in the order in which they are sent. When the
  thrown value is \<open>null\<close> or \<open>undefined\<close>, the read of \<open>e.name\<close> in the \<open>catch\<close> block throws,
  and the listener is left after the \<open>execute_input\<close> broadcast and the output of the script.
\<close>

lemma execute_request_seen:
  assumes h: "\<not> nullish (header d)"
    and c: "get_prop (content d) ''code'' = Inr code"
    and ev: "evaluate E (ctx k) code = (cs, res, c')"
  shows "\<exists>k' ss. execute_request L E key d k = (if reportable res then None else Some TypeError, k') \<and>
     map seen (wire k') = map seen (wire k) @
       [(Iopub, ''status'', Obj [(''execution_state'', Str ''busy'')], header d),
        (Iopub, ''execute_input'',
         Obj [(''code'', code), (''execution_count'', Num (executionCount k + 1))], header d)] @
       ss @ reported d (executionCount k + 1) res @
       (if reportable res
        then [(Iopub, ''status'', Obj [(''execution_state'', Str ''idle'')], header d)] else []) \<and>
     (\<forall>x \<in> set ss. \<exists>t. x = (Iopub, ''stream'', t, header d)) \<and> length ss \<le> length cs \<and>
     executionCount k' = executionCount k + 1 \<and>
     console k' = binding_after (Hooks (header d)) cs \<and> ctx k' = c'"
proof -
  obtain k1 where 1: "iopub L key ''status'' (Obj [(''execution_state'', Str ''busy'')]) (header d) k = (None, k1)"
    "map seen (wire k1) = map seen (wire k) @
       [(Iopub, ''status'', Obj [(''execution_state'', Str ''busy'')], header d)]"
    "executionCount k1 = executionCount k" "ctx k1 = ctx k"
    using iopub_seen [OF h] by blast
  define k2 where "k2 = k1\<lparr>executionCount := executionCount k1 + 1\<rparr>"
  have k2: "wire k2 = wire k1" "executionCount k2 = executionCount k + 1" "ctx k2 = ctx k"
    using 1 by (simp_all add: k2_def)
  obtain k3 where 3: "iopub L key ''execute_input''
        (Obj [(''code'', code), (''execution_count'', Num (executionCount k2))]) (header d) k2 = (None, k3)"
    "map seen (wire k3) = map seen (wire k2) @
       [(Iopub, ''execute_input'',
         Obj [(''code'', code), (''execution_count'', Num (executionCount k2))], header d)]"
    "executionCount k3 = executionCount k2" "ctx k3 = ctx k2"
    using iopub_seen [OF h] by blast
  define k4 where "k4 = k3\<lparr>console := Hooks (header d)\<rparr>"
  have k4: "wire k4 = wire k3" "executionCount k4 = executionCount k + 1" "ctx k4 = ctx k"
    "console k4 = Hooks (header d)"
    using 3 k2 by (simp_all add: k4_def)
  from ev have "evaluate E (ctx k4) code = (cs, res, c')"
    by (simp add: k4)
  from try_catch_seen [OF h c k4(4) this, of L key]
  obtain k5 ss where 5: "try_catch L E key d k4 = (if reportable res then None else Some TypeError, k5)"
    "map seen (wire k5) = map seen (wire k4) @ ss @ reported d (executionCount k4) res"
    "\<forall>x \<in> set ss. \<exists>t. x = (Iopub, ''stream'', t, header d)"
    "executionCount k5 = executionCount k4" "console k5 = binding_after (console k4) cs"
    "ctx k5 = c'" "length ss \<le> length cs"
    by blast
  have ec: "executionCount k2 = executionCount k1 + 1"
    by (simp add: k2_def)
  have step: "execute_request L E key d k =
      and_then (try_catch L E key d k4)
        (iopub L key ''status'' (Obj [(''execution_state'', Str ''idle'')]) (header d))"
    using 1(1) c 3(1) ec
    by (simp add: execute_request_def and_then_def Let_def k2_def [symmetric] k4_def [symmetric])
  show ?thesis
  proof (cases "reportable res")
    case False
    with 5(1) step have "execute_request L E key d k = (Some TypeError, k5)"
      by (simp add: and_then_def)
    with False 5 k4 3 k2 1 show ?thesis
      by simp
  next
    case True
    obtain k6 where 6: "iopub L key ''status'' (Obj [(''execution_state'', Str ''idle'')]) (header d) k5 = (None, k6)"
      "map seen (wire k6) = map seen (wire k5) @
         [(Iopub, ''status'', Obj [(''execution_state'', Str ''idle'')], header d)]"
      "executionCount k6 = executionCount k5" "console k6 = console k5" "ctx k6 = ctx k5"
      using iopub_seen [OF h] by blast
    from True 5(1) step 6(1) have "execute_request L E key d k = (None, k6)"
      by (simp add: and_then_def)
    with True 6 5 k4 3 k2 1 show ?thesis
      by simp
  qed
qed



lemma shell_execute:
  assumes "parse L args = Inr d" "get_prop (header d) ''msg_type'' = Inr (Str ''execute_request'')"
  shows "shell_on_message L E key args k = execute_request L E key d k"
  using assms by (simp add: shell_on_message_def)














text \<open>The requests of the examples.\<close>

lemma json_read_header_text: "json_read header_text = Some header_value"
  by (simp add: header_text_def header_value_def json_read_def skip_ws_def p_string_def)

lemma parse_request:
  assumes "json_read c = Some cv"
  shows "parse node_lib (request header_text c) =
     Inr \<lparr>header = header_value, content = cv, uuids = [''client'']\<rparr>"
proof -
  have d: "DELIM \<notin> set [''client'']"
    by (simp add: DELIM_def)
  show ?thesis
    using assms parse_framed [OF d, of node_lib "''signature''" "[header_text, ''{}'', ''{}'', c]"]
    by (simp add: request_def JSON_parse_def at_def frame_text_def node_lib_def json_read_header_text)
qed

lemma json_read_codes:
  "json_read ''{\"code\":\"1+1\"}'' = Some (Obj [(''code'', Str ''1+1'')])"
  "json_read ''{\"code\":\"boom()\"}'' = Some (Obj [(''code'', Str ''boom()'')])"
  "json_read ''{\"code\":\"throw null\"}'' = Some (Obj [(''code'', Str ''throw null'')])"
  "json_read ''{\"code\":\"console.log(7)\"}'' = Some (Obj [(''code'', Str ''console.log(7)'')])"
  "json_read ''{\"code\":\"console = null\"}'' = Some (Obj [(''code'', Str ''console = null'')])"
  by (simp_all add: json_read_def skip_ws_def p_string_def)

lemma evaluate_scripts:
  "evaluate script_engine c (Str ''1+1'') = ([], Inr ''2'', c)"
  "evaluate script_engine c (Str ''boom()'') =
     ([], Inl (error_object ''ReferenceError'' ''boom is not defined''), c)"
  "evaluate script_engine c (Str ''throw null'') = ([], Inl Null, c)"
  "evaluate script_engine c (Str ''console.log(7)'') = ([Call Log [Num 7]], Inr ''undefined'', c)"
  "evaluate script_engine c (Str ''console = null'') = ([Assign Null], Inr ''null'', c)"
  by (simp_all add: evaluate_def rewriteCode_def script_engine_def scripts_parse_def
      scripts_print_def scripts_run_def walk_program_def Let_def show_int_def)





text \<open>
  The trace of an execute request on the shell socket whose script makes no console call.
\<close>

lemma shell_execute_trace:
  assumes p: "parse L args = Inr d"
    and t: "get_prop (header d) ''msg_type'' = Inr (Str ''execute_request'')"
    and c: "get_prop (content d) ''code'' = Inr code"
    and ev: "evaluate E (ctx k) code = ([], res, c')"
  shows "fst (shell_on_message L E key args k) = (if reportable res then None else Some TypeError)"
    and "map seen (wire (snd (shell_on_message L E key args k))) = map seen (wire k) @
       [(Iopub, ''status'', Obj [(''execution_state'', Str ''busy'')], header d),
        (Iopub, ''execute_input'',
         Obj [(''code'', code), (''execution_count'', Num (executionCount k + 1))], header d)] @
       reported d (executionCount k + 1) res @
       (if reportable res
        then [(Iopub, ''status'', Obj [(''execution_state'', Str ''idle'')], header d)] else [])"
    and "executionCount (snd (shell_on_message L E key args k)) = executionCount k + 1"
    and "console (snd (shell_on_message L E key args k)) = Hooks (header d)"
proof -
  from execute_request_seen [OF get_prop_string [OF t] c ev, of L key]
  obtain k' ss where r: "execute_request L E key d k = (if reportable res then None else Some TypeError, k')"
    and w: "map seen (wire k') = map seen (wire k) @
       [(Iopub, ''status'', Obj [(''execution_state'', Str ''busy'')], header d),
        (Iopub, ''execute_input'',
         Obj [(''code'', code), (''execution_count'', Num (executionCount k + 1))], header d)] @
       ss @ reported d (executionCount k + 1) res @
       (if reportable res
        then [(Iopub, ''status'', Obj [(''execution_state'', Str ''idle'')], header d)] else [])"
    and l: "length ss \<le> length ([] :: action list)"
    and n: "executionCount k' = executionCount k + 1"
      "console k' = binding_after (Hooks (header d)) []"
    by blast
  from l have ss: "ss = []" by simp
  have s: "shell_on_message L E key args k = (if reportable res then None else Some TypeError, k')"
    using r by (simp add: shell_execute [OF p t])
  show "fst (shell_on_message L E key args k) = (if reportable res then None else Some TypeError)"
    by (simp add: s)
  show "map seen (wire (snd (shell_on_message L E key args k))) = map seen (wire k) @
       [(Iopub, ''status'', Obj [(''execution_state'', Str ''busy'')], header d),
        (Iopub, ''execute_input'',
         Obj [(''code'', code), (''execution_count'', Num (executionCount k + 1))], header d)] @
       reported d (executionCount k + 1) res @
       (if reportable res
        then [(Iopub, ''status'', Obj [(''execution_state'', Str ''idle'')], header d)] else [])"
    using w ss by (simp add: s)
  show "executionCount (snd (shell_on_message L E key args k)) = executionCount k + 1"
    "console (snd (shell_on_message L E key args k)) = Hooks (header d)"
    using n by (simp_all add: s)
qed

lemma header_value_type: "get_prop header_value ''msg_type'' = Inr (Str ''execute_request'')"
  by (simp add: header_value_def)

text \<open>
  C2. The spec requires for every execute request, whether the evaluation succeeds or
  fails, the \<open>busy\<close> status before the reply and the \<open>idle\<close> status after it, with none of
  the five steps skipped. For the script \<open>throw null\<close> the listener sends the \<open>busy\<close> status
  and the \<open>execute_input\<close> broadcast, and is then left by the TypeError of \<open>e.name\<close> in the
  \<open>catch\<close> block: no reply and no \<open>idle\<close> status are sent.
\<close>

theorem execute_throw_null:
  "fst (shell_on_message node_lib script_engine ''secret''
          (request header_text ''{\"code\":\"throw null\"}'') (startup ())) = Some TypeError \<and>
   map seen (wire (snd (shell_on_message node_lib script_engine ''secret''
          (request header_text ''{\"code\":\"throw null\"}'') (startup ())))) =
     [(Iopub, ''status'', Obj [(''execution_state'', Str ''busy'')], header_value),
      (Iopub, ''execute_input'',
       Obj [(''code'', Str ''throw null''), (''execution_count'', Num 1)], header_value)]"
proof -
  let ?d = "\<lparr>header = header_value, content = Obj [(''code'', Str ''throw null'')],
             uuids = [''client'']\<rparr>"
  have p: "parse node_lib (request header_text ''{\"code\":\"throw null\"}'') = Inr ?d"
    by (rule parse_request) (rule json_read_codes)
  have t: "get_prop (header ?d) ''msg_type'' = Inr (Str ''execute_request'')"
    by (simp add: header_value_type)
  have c: "get_prop (content ?d) ''code'' = Inr (Str ''throw null'')"
    by simp
  have ev: "evaluate script_engine (ctx (startup ())) (Str ''throw null'') = ([], Inl Null, ())"
    by (simp add: evaluate_scripts)
  show ?thesis
    using shell_execute_trace(1,2) [OF p t c ev, of "''secret''"]
    by (simp add: reported_def startup_def)
qed

text \<open>
  C5. The spec requires every thrown value, of any kind, to be caught, reported by an
  \<open>error\<close> broadcast and an \<open>error\<close> reply, and the kernel to go on serving. After the
  script \<open>throw null\<close> neither is sent, the TypeError is uncaught, and the request that
  follows is not served.
\<close>

theorem serve_after_throw_null:
  "fst (serve node_lib script_engine ''secret''
          [request header_text ''{\"code\":\"throw null\"}'',
           request header_text ''{\"code\":\"1+1\"}''] (startup ())) = Some TypeError \<and>
   map (\<lambda>m. (socket m, mtype m))
     (wire (snd (serve node_lib script_engine ''secret''
          [request header_text ''{\"code\":\"throw null\"}'',
           request header_text ''{\"code\":\"1+1\"}''] (startup ())))) =
     [(Iopub, ''status''), (Iopub, ''execute_input'')]"
proof -
  let ?d = "\<lparr>header = header_value, content = Obj [(''code'', Str ''throw null'')],
             uuids = [''client'']\<rparr>"
  let ?s = "shell_on_message node_lib script_engine ''secret''
          (request header_text ''{\"code\":\"throw null\"}'') (startup ())"
  have p: "parse node_lib (request header_text ''{\"code\":\"throw null\"}'') = Inr ?d"
    by (rule parse_request) (rule json_read_codes)
  have t: "get_prop (header ?d) ''msg_type'' = Inr (Str ''execute_request'')"
    by (simp add: header_value_type)
  have c: "get_prop (content ?d) ''code'' = Inr (Str ''throw null'')"
    by simp
  have ev: "evaluate script_engine (ctx (startup ())) (Str ''throw null'') = ([], Inl Null, ())"
    by (simp add: evaluate_scripts)
  have f: "fst ?s = Some TypeError"
    and w: "map seen (wire (snd ?s)) =
     [(Iopub, ''status'', Obj [(''execution_state'', Str ''busy'')], header_value),
      (Iopub, ''execute_input'',
       Obj [(''code'', Str ''throw null''), (''execution_count'', Num 1)], header_value)]"
    using shell_execute_trace(1,2) [OF p t c ev, of "''secret''"]
    by (simp_all add: reported_def startup_def)
  from f have s: "?s = (Some TypeError, snd ?s)"
    by (metis prod.collapse)
  have r: "serve node_lib script_engine ''secret''
          [request header_text ''{\"code\":\"throw null\"}'',
           request header_text ''{\"code\":\"1+1\"}''] (startup ()) = (Some TypeError, snd ?s)"
    by (subst serve.simps, subst s) (simp add: and_then_def)
  have "map (\<lambda>m. (socket m, mtype m)) (wire (snd ?s)) =
      map (\<lambda>x. (fst x, fst (snd x))) (map seen (wire (snd ?s)))"
    by (simp add: seen_def)
  then show ?thesis
    unfolding r by (simp add: w)
qed












end
